theory Spec2Isabelle
  imports Complex_Main "HOL-Library.Sublist"
begin

section \<open>JavaScript numbers\<close>

text \<open>
  A TypeScript \<open>number\<close>. Finite values are idealised as reals (no rounding, no signed
  zero); the three non-finite values of IEEE arithmetic are kept, because the scale
  computations divide by image dimensions that may be zero.
\<close>

datatype number = Num real | PosInf | NegInf | NaN

text \<open>The operator \<open>/\<close>: a finite non-zero value over zero is an infinity, \<open>0 / 0\<close> is NaN.\<close>

fun js_div :: "number \<Rightarrow> number \<Rightarrow> number" where
  "js_div NaN _ = NaN"
| "js_div _ NaN = NaN"
| "js_div (Num a) (Num b) =
     (if b = 0 then (if a = 0 then NaN else if 0 < a then PosInf else NegInf)
      else Num (a / b))"
| "js_div (Num a) PosInf = Num 0"
| "js_div (Num a) NegInf = Num 0"
| "js_div PosInf (Num b) = (if 0 \<le> b then PosInf else NegInf)"
| "js_div NegInf (Num b) = (if 0 \<le> b then NegInf else PosInf)"
| "js_div PosInf PosInf = NaN"
| "js_div PosInf NegInf = NaN"
| "js_div NegInf PosInf = NaN"
| "js_div NegInf NegInf = NaN"

text \<open>The operator \<open>*\<close>: zero times an infinity is NaN.\<close>

fun js_mul :: "number \<Rightarrow> number \<Rightarrow> number" where
  "js_mul NaN _ = NaN"
| "js_mul _ NaN = NaN"
| "js_mul (Num a) (Num b) = Num (a * b)"
| "js_mul (Num a) PosInf = (if a = 0 then NaN else if 0 < a then PosInf else NegInf)"
| "js_mul (Num a) NegInf = (if a = 0 then NaN else if 0 < a then NegInf else PosInf)"
| "js_mul PosInf (Num b) = (if b = 0 then NaN else if 0 < b then PosInf else NegInf)"
| "js_mul NegInf (Num b) = (if b = 0 then NaN else if 0 < b then NegInf else PosInf)"
| "js_mul PosInf PosInf = PosInf"
| "js_mul PosInf NegInf = NegInf"
| "js_mul NegInf PosInf = NegInf"
| "js_mul NegInf NegInf = PosInf"

text \<open>\<open>Math.min\<close>: NaN if any argument is NaN, \<open>Infinity\<close> on no arguments.\<close>

fun min2 :: "number \<Rightarrow> number \<Rightarrow> number" where
  "min2 NaN _ = NaN"
| "min2 _ NaN = NaN"
| "min2 NegInf _ = NegInf"
| "min2 _ NegInf = NegInf"
| "min2 PosInf b = b"
| "min2 a PosInf = a"
| "min2 (Num a) (Num b) = Num (min a b)"

definition Math_min :: "number list \<Rightarrow> number" where
  "Math_min xs = foldr min2 xs PosInf"

text \<open>Truthiness of a number, as \<open>||\<close> and \<open>? :\<close> test it: \<open>0\<close> and NaN are falsy.\<close>

fun truthy :: "number \<Rightarrow> bool" where
  "truthy (Num a) = (a \<noteq> 0)"
| "truthy NaN = False"
| "truthy PosInf = True"
| "truthy NegInf = True"

text \<open>\<open>a || b\<close> where \<open>a\<close> may be \<open>undefined\<close> (\<open>None\<close>) and \<open>b\<close> is a number.\<close>

definition or_else :: "number option \<Rightarrow> number \<Rightarrow> number" where
  "or_else a b = (case a of None \<Rightarrow> b | Some v \<Rightarrow> if truthy v then v else b)"


section \<open>Scale calculation\<close>

subsection \<open>Read-only preview (CertificatePreview)\<close>

record template =
  template_id :: string
  template_name :: string
  image_url :: string
  image_width :: number
  image_height :: number

text \<open>\<open>useState(800)\<close>: the container width before the first measurement.\<close>

definition initial_containerWidth :: number where
  "initial_containerWidth = Num 800"

text \<open>\<open>template?.image_width || 800\<close> and \<open>template?.image_height || 600\<close>.\<close>

definition templateWidth :: "template option \<Rightarrow> number" where
  "templateWidth t = or_else (map_option image_width t) (Num 800)"

definition templateHeight :: "template option \<Rightarrow> number" where
  "templateHeight t = or_else (map_option image_height t) (Num 600)"

text \<open>\<open>Math.min(containerWidth / templateWidth, 0.9)\<close>.\<close>

definition preview_scale :: "template option \<Rightarrow> number \<Rightarrow> number" where
  "preview_scale t containerWidth =
     Math_min [js_div containerWidth (templateWidth t), Num (9 / 10)]"

definition scaledWidth :: "template option \<Rightarrow> number \<Rightarrow> number" where
  "scaledWidth t containerWidth = js_mul (templateWidth t) (preview_scale t containerWidth)"

definition scaledHeight :: "template option \<Rightarrow> number \<Rightarrow> number" where
  "scaledHeight t containerWidth = js_mul (templateHeight t) (preview_scale t containerWidth)"

subsection \<open>Editor (TemplateEditor)\<close>

record dimensions =
  width :: number
  height :: number

text \<open>\<open>useState({ width: 800, height: 600 })\<close>: the dimensions before an image is loaded.\<close>

definition initial_imageDimensions :: dimensions where
  "initial_imageDimensions = \<lparr>width = Num 800, height = Num 600\<rparr>"

definition maxWidth :: number where
  "maxWidth = Num 800"

definition maxHeight :: number where
  "maxHeight = Num 500"

text \<open>The two quotients handed to \<open>Math.min\<close>.\<close>

definition editor_ratios :: "dimensions \<Rightarrow> number list" where
  "editor_ratios imageDimensions =
     [js_div maxWidth (width imageDimensions), js_div maxHeight (height imageDimensions)]"

text \<open>\<open>Math.min(maxWidth / imageDimensions.width, maxHeight / imageDimensions.height, 1)\<close>.\<close>

definition editor_scale :: "dimensions \<Rightarrow> number" where
  "editor_scale imageDimensions = Math_min (editor_ratios imageDimensions @ [Num 1])"


section \<open>Preview navigation\<close>

text \<open>
  \<open>setPreviewIndex((i) => Math.max(0, i - 1))\<close> and
  \<open>setPreviewIndex((i) => Math.min(csvData.length - 1, i + 1))\<close>; the index is an integer
  and \<open>rows\<close> is the component's \<open>csvData\<close>.
\<close>

definition handlePrev :: "int \<Rightarrow> int" where
  "handlePrev i = max 0 (i - 1)"

definition handleNext :: "'row list \<Rightarrow> int \<Rightarrow> int" where
  "handleNext rows i = min (int (length rows) - 1) (i + 1)"


section \<open>Template fields\<close>

text \<open>
  The interface \<open>TemplateField\<close>. The members \<open>id\<close>, \<open>x\<close> and \<open>y\<close> are named
  \<open>field_id\<close>, \<open>pos_x\<close> and \<open>pos_y\<close> here; \<open>max_width\<close> is optional.
\<close>

record template_field =
  field_id :: string
  field_key :: string
  label :: string
  pos_x :: number
  pos_y :: number
  font_size :: number
  font_family :: string
  font_color :: string
  text_align :: string
  max_width :: "number option"

text \<open>
  \<open>Partial<TemplateField>\<close>: every member may be absent (\<open>None\<close>). For the optional
  \<open>max_width\<close> a present member carries the new (possibly undefined) value.
\<close>

record field_updates =
  upd_field_id :: "string option"
  upd_field_key :: "string option"
  upd_label :: "string option"
  upd_pos_x :: "number option"
  upd_pos_y :: "number option"
  upd_font_size :: "number option"
  upd_font_family :: "string option"
  upd_font_color :: "string option"
  upd_text_align :: "string option"
  upd_max_width :: "number option option"

definition no_updates :: field_updates where
  "no_updates = \<lparr>upd_field_id = None, upd_field_key = None, upd_label = None,
     upd_pos_x = None, upd_pos_y = None, upd_font_size = None, upd_font_family = None,
     upd_font_color = None, upd_text_align = None, upd_max_width = None\<rparr>"

text \<open>The spread \<open>{ ...f, ...updates }\<close>: a member present in \<open>updates\<close> wins.\<close>

definition spread :: "template_field \<Rightarrow> field_updates \<Rightarrow> template_field" where
  "spread f updates =
     \<lparr>field_id = (case upd_field_id updates of None \<Rightarrow> field_id f | Some v \<Rightarrow> v),
      field_key = (case upd_field_key updates of None \<Rightarrow> field_key f | Some v \<Rightarrow> v),
      label = (case upd_label updates of None \<Rightarrow> label f | Some v \<Rightarrow> v),
      pos_x = (case upd_pos_x updates of None \<Rightarrow> pos_x f | Some v \<Rightarrow> v),
      pos_y = (case upd_pos_y updates of None \<Rightarrow> pos_y f | Some v \<Rightarrow> v),
      font_size = (case upd_font_size updates of None \<Rightarrow> font_size f | Some v \<Rightarrow> v),
      font_family = (case upd_font_family updates of None \<Rightarrow> font_family f | Some v \<Rightarrow> v),
      font_color = (case upd_font_color updates of None \<Rightarrow> font_color f | Some v \<Rightarrow> v),
      text_align = (case upd_text_align updates of None \<Rightarrow> text_align f | Some v \<Rightarrow> v),
      max_width = (case upd_max_width updates of None \<Rightarrow> max_width f | Some v \<Rightarrow> v)\<rparr>"

text \<open>The editor's working set: the \<open>fields\<close> and \<open>selectedFieldId\<close> state cells
  (\<open>fields\<close> is written \<open>fields'\<close>).\<close>

record editor_state =
  fields' :: "template_field list"
  selectedFieldId :: "string option"

text \<open>\<open>setFields(fields.map(f => f.id === fieldId ? { ...f, ...updates } : f))\<close>.\<close>

definition updateField :: "string \<Rightarrow> field_updates \<Rightarrow> editor_state \<Rightarrow> editor_state" where
  "updateField fieldId updates st =
     st\<lparr>fields' := map (\<lambda>f. if field_id f = fieldId then spread f updates else f) (fields' st)\<rparr>"

text \<open>
  \<open>setFields(fields.filter(f => f.id !== fieldId));
  if (selectedFieldId === fieldId) setSelectedFieldId(null);\<close>
\<close>

definition removeField :: "string \<Rightarrow> editor_state \<Rightarrow> editor_state" where
  "removeField fieldId st =
     \<lparr>fields' = filter (\<lambda>f. field_id f \<noteq> fieldId) (fields' st),
      selectedFieldId = (if selectedFieldId st = Some fieldId then None else selectedFieldId st)\<rparr>"

text \<open>
  \<open>handleDragEnd\<close>: the event target's \<open>x()\<close> and \<open>y()\<close> are stored as they are.
\<close>

definition handleDragEnd :: "string \<Rightarrow> number \<times> number \<Rightarrow> editor_state \<Rightarrow> editor_state" where
  "handleDragEnd fieldId target st =
     updateField fieldId (no_updates\<lparr>upd_pos_x := Some (fst target), upd_pos_y := Some (snd target)\<rparr>) st"


section \<open>Rendering\<close>

text \<open>The props handed to a canvas \<open>Text\<close> node; \<open>None\<close> is a prop that is not passed.\<close>

record text_node =
  node_x :: number
  node_y :: number
  node_text :: string
  fontSize :: number
  fontFamily :: string
  fill :: string
  align :: string
  node_width :: "number option"
  offsetX :: "number option"
  draggable :: bool
  stroke :: "string option"
  strokeWidth :: "number option"

text \<open>The props of the \<open>Stage\<close> and the \<open>Text\<close> children of its layer.\<close>

record stage =
  stage_width :: number
  stage_height :: number
  scaleX :: "number option"
  scaleY :: "number option"
  texts :: "text_node list"

text \<open>The template literal \<open>{{${fieldKey}}}\<close>.\<close>

definition placeholder :: "string \<Rightarrow> string" where
  "placeholder fieldKey = ''{{'' @ fieldKey @ ''}}''"

subsection \<open>Editor canvas\<close>

definition editor_offsetX :: "template_field \<Rightarrow> number" where
  "editor_offsetX field =
     (if text_align field = ''center''
        then js_mul (js_mul (font_size field) (Num (real (length (field_key field))))) (Num (3 / 10))
      else if text_align field = ''right''
        then js_mul (js_mul (font_size field) (Num (real (length (field_key field))))) (Num (6 / 10))
      else Num 0)"

definition editor_text :: "string option \<Rightarrow> template_field \<Rightarrow> text_node" where
  "editor_text selected field =
     \<lparr>node_x = pos_x field,
      node_y = pos_y field,
      node_text = placeholder (field_key field),
      fontSize = font_size field,
      fontFamily = font_family field,
      fill = font_color field,
      align = text_align field,
      node_width = None,
      offsetX = Some (editor_offsetX field),
      draggable = True,
      stroke = (if selected = Some (field_id field) then Some ''#6366f1'' else None),
      strokeWidth = Some (if selected = Some (field_id field) then Num 2 else Num 0)\<rparr>"

text \<open>
  The editor's \<open>Stage\<close>: sized to the scaled image, with \<open>scaleX = scaleY = scale\<close>, and
  one \<open>Text\<close> per field at the field's own \<open>x\<close> and \<open>y\<close>.
\<close>

definition editor_stage :: "dimensions \<Rightarrow> editor_state \<Rightarrow> stage" where
  "editor_stage imageDimensions st =
     (let scale = editor_scale imageDimensions in
      \<lparr>stage_width = js_mul (width imageDimensions) scale,
       stage_height = js_mul (height imageDimensions) scale,
       scaleX = Some scale,
       scaleY = Some scale,
       texts = map (editor_text (selectedFieldId st)) (fields' st)\<rparr>)"

subsection \<open>Canvas library\<close>

text \<open>
  The canvas library (Konva) is not part of the repository. What is used of it: a stage
  at the origin draws a node with local position \<open>(x, y)\<close> at \<open>(x * scaleX, y * scaleY)\<close>,
  a scale that is not passed being 1; and a dragged node reports, as its \<open>x()\<close> and
  \<open>y()\<close>, the local position of the display position it was dropped at.
\<close>

definition stage_scale :: "number option \<Rightarrow> number" where
  "stage_scale s = (case s of None \<Rightarrow> Num 1 | Some v \<Rightarrow> v)"

definition display_position :: "stage \<Rightarrow> text_node \<Rightarrow> number \<times> number" where
  "display_position st nd =
     (js_mul (node_x nd) (stage_scale (scaleX st)), js_mul (node_y nd) (stage_scale (scaleY st)))"

definition local_position :: "stage \<Rightarrow> number \<times> number \<Rightarrow> number \<times> number" where
  "local_position st d =
     (js_div (fst d) (stage_scale (scaleX st)), js_div (snd d) (stage_scale (scaleY st)))"


subsection \<open>Preview canvas and value resolution\<close>

text \<open>A parsed CSV row and the field mapping are objects with string values.\<close>

type_synonym csv_row = "string \<rightharpoonup> string"

text \<open>\<open>csvData[previewIndex] || {}\<close>.\<close>

definition currentRow :: "csv_row list \<Rightarrow> int \<Rightarrow> csv_row" where
  "currentRow rows previewIndex =
     (if 0 \<le> previewIndex \<and> previewIndex < int (length rows) then rows ! nat previewIndex
      else Map.empty)"

text \<open>
  \<open>getFieldValue\<close>: the guard \<open>csvColumn && currentRow[csvColumn]\<close> is a truthiness
  test, so an undefined and an empty string both fail it.
\<close>

definition getFieldValue :: "(string \<rightharpoonup> string) \<Rightarrow> csv_row \<Rightarrow> string \<Rightarrow> string" where
  "getFieldValue mapping row fieldKey =
     (case mapping fieldKey of
        None \<Rightarrow> placeholder fieldKey
      | Some csvColumn \<Rightarrow>
          if csvColumn = [] then placeholder fieldKey
          else (case row csvColumn of
                  None \<Rightarrow> placeholder fieldKey
                | Some v \<Rightarrow> if v = [] then placeholder fieldKey else v))"

definition preview_text ::
  "number \<Rightarrow> (string \<rightharpoonup> string) \<Rightarrow> csv_row \<Rightarrow> template_field \<Rightarrow> text_node" where
  "preview_text scale mapping row field =
     \<lparr>node_x = js_mul (pos_x field) scale,
      node_y = js_mul (pos_y field) scale,
      node_text = getFieldValue mapping row (field_key field),
      fontSize = js_mul (font_size field) scale,
      fontFamily = font_family field,
      fill = font_color field,
      align = text_align field,
      node_width = (case max_width field of
                      None \<Rightarrow> None
                    | Some w \<Rightarrow> if truthy w then Some (js_mul w scale) else None),
      offsetX = None,
      draggable = False,
      stroke = None,
      strokeWidth = None\<rparr>"

text \<open>
  The preview's \<open>Stage\<close>: no scale props, every linear quantity of a field is multiplied
  by \<open>scale\<close> instead. Nothing is rendered without a template.
\<close>

definition preview_stage ::
  "template option \<Rightarrow> number \<Rightarrow> template_field list \<Rightarrow> csv_row list \<Rightarrow>
     (string \<rightharpoonup> string) \<Rightarrow> int \<Rightarrow> stage option" where
  "preview_stage t containerWidth templateFields rows mapping previewIndex =
     (if t = None then None
      else Some
        \<lparr>stage_width = scaledWidth t containerWidth,
         stage_height = scaledHeight t containerWidth,
         scaleX = None,
         scaleY = None,
         texts = map (preview_text (preview_scale t containerWidth) mapping
                        (currentRow rows previewIndex)) templateFields\<rparr>)"


section \<open>Generate page\<close>

subsection \<open>Automatic mapping\<close>

text \<open>\<open>String.prototype.toLowerCase\<close>, on the ASCII letters.\<close>

definition toLowerCase_char :: "char \<Rightarrow> char" where
  "toLowerCase_char c =
     (case map_of (zip ''ABCDEFGHIJKLMNOPQRSTUVWXYZ'' ''abcdefghijklmnopqrstuvwxyz'') c of
        None \<Rightarrow> c
      | Some l \<Rightarrow> l)"

definition toLowerCase :: "string \<Rightarrow> string" where
  "toLowerCase s = map toLowerCase_char s"

text \<open>
  The \<open>forEach\<close> over the template's fields: \<open>headers.find\<close> with the lower-cased
  comparison, stored under the field key when the header found is truthy.
\<close>

definition auto_map :: "template_field list \<Rightarrow> string list \<Rightarrow> (string \<rightharpoonup> string)" where
  "auto_map templateFields headers =
     fold (\<lambda>field mapping.
             case find (\<lambda>h. toLowerCase h = toLowerCase (field_key field)) headers of
               None \<Rightarrow> mapping
             | Some matchingHeader \<Rightarrow>
                 if matchingHeader = [] then mapping
                 else mapping(field_key field \<mapsto> matchingHeader))
          templateFields Map.empty"

record generate_state =
  step :: nat
  selectedTemplateId :: string
  csvData :: "csv_row list"
  csvHeaders :: "string list"
  fieldMapping :: "string \<rightharpoonup> string"
  sendEmails :: bool
  emailColumn :: string
  isGenerating :: bool
  generationProgress :: int

text \<open>
  The \<open>complete\<close> callback of the CSV parser in \<open>handleCsvUpload\<close>, given the parsed
  rows and \<open>results.meta.fields\<close>.
\<close>

definition handleCsvUpload_complete ::
  "template_field list \<Rightarrow> csv_row list \<Rightarrow> string list option \<Rightarrow> generate_state \<Rightarrow> generate_state" where
  "handleCsvUpload_complete templateFields data meta_fields st =
     (let headers = (case meta_fields of None \<Rightarrow> [] | Some hs \<Rightarrow> hs) in
      st\<lparr>csvData := data,
         csvHeaders := headers,
         fieldMapping := auto_map templateFields headers,
         emailColumn :=
           (case find (\<lambda>h. sublist ''email'' (toLowerCase h)) headers of
              None \<Rightarrow> emailColumn st
            | Some emailHeader \<Rightarrow> if emailHeader = [] then emailColumn st else emailHeader),
         step := 3\<rparr>)"


section \<open>Remote tables\<close>

text \<open>
  The rows of the four tables the pages write to, with the columns the code sets and
  the counters of \<open>batch_jobs\<close>. Columns filled by the database alone (the \<open>id\<close> of a
  field or certificate row, the timestamps) are left out.
\<close>

record template_row =
  tpl_id :: string
  tpl_user_id :: string
  tpl_name :: string
  tpl_description :: string
  tpl_image_url :: string
  tpl_image_width :: number
  tpl_image_height :: number

record field_row =
  row_template_id :: string
  row_field_key :: string
  row_label :: string
  row_x :: number
  row_y :: number
  row_font_size :: number
  row_font_family :: string
  row_font_color :: string
  row_text_align :: string
  row_max_width :: "number option"

record batch_job =
  batch_id :: string
  batch_user_id :: string
  batch_template_id :: string
  batch_name :: string
  status :: string
  total_count :: nat
  generated_count :: nat
  csv_data :: "csv_row list"

record certificate =
  cert_batch_id :: string
  cert_template_id :: string
  recipient_name :: string
  recipient_email :: "string option"
  recipient_data :: csv_row
  email_status :: string

record database =
  certificate_templates :: "template_row list"
  template_fields :: "field_row list"
  batch_jobs :: "batch_job list"
  certificates :: "certificate list"


subsection \<open>Generation (handleGenerate)\<close>

text \<open>
  What the backend answers during one run: the batch insert returns an error message
  or the new batch's id; the \<open>i\<close>-th certificate insert and the final update are
  accepted or not. The code reads only the answer to the batch insert.
\<close>

record generate_backend =
  batch_insert :: "string + string"
  certificate_ok :: "nat \<Rightarrow> bool"
  batch_update_ok :: bool

datatype outcome = NotStarted | Failed string | Complete

text \<open>\<open>Math.round(((i + 1) / csvData.length) * 100)\<close>.\<close>

definition progress :: "nat \<Rightarrow> nat \<Rightarrow> int" where
  "progress i n = \<lfloor>(real (i + 1) / real n) * 100 + 1 / 2\<rfloor>"

text \<open>
  The record one row is inserted as: the name is \<open>row[fieldMapping.name || 'name'] ||
  'Unknown'\<close>, the address \<open>sendEmails ? row[emailColumn] : null\<close>.
\<close>

definition certificate_of :: "string \<Rightarrow> generate_state \<Rightarrow> csv_row \<Rightarrow> certificate" where
  "certificate_of bid st row =
     \<lparr>cert_batch_id = bid,
      cert_template_id = selectedTemplateId st,
      recipient_name =
        (let col = (case fieldMapping st ''name'' of
                      None \<Rightarrow> ''name''
                    | Some c \<Rightarrow> if c = [] then ''name'' else c)
         in case row col of None \<Rightarrow> ''Unknown'' | Some v \<Rightarrow> if v = [] then ''Unknown'' else v),
      recipient_email = (if sendEmails st then row (emailColumn st) else None),
      recipient_data = row,
      email_status = ''pending''\<rparr>"

text \<open>
  The \<open>for\<close> loop from index \<open>i\<close> on, over the rows not yet processed: one awaited
  insert per row, whose result is not inspected, then the progress update.
\<close>

fun generate_loop ::
  "generate_backend \<Rightarrow> string \<Rightarrow> generate_state \<Rightarrow> nat \<Rightarrow> csv_row list \<Rightarrow> nat \<Rightarrow>
     int \<times> database \<Rightarrow> int \<times> database" where
  "generate_loop env bid st n [] i (pr, db) = (pr, db)"
| "generate_loop env bid st n (row # rest) i (pr, db) =
     generate_loop env bid st n rest (Suc i)
       (progress i n,
        if certificate_ok env i
          then db\<lparr>certificates := certificates db @ [certificate_of bid st row]\<rparr>
          else db)"

text \<open>
  \<open>handleGenerate\<close>, for the signed-in user's id (\<open>None\<close>: no user, and \<open>user!.id\<close>
  throws inside the \<open>try\<close>), the selected template and today's date as text. Toasts
  are not modelled.
\<close>

definition handleGenerate ::
  "generate_backend \<Rightarrow> string option \<Rightarrow> template_row option \<Rightarrow> string \<Rightarrow>
     generate_state \<Rightarrow> database \<Rightarrow> outcome \<times> generate_state \<times> database" where
  "handleGenerate env user selectedTemplate today st db =
     (case selectedTemplate of
        None \<Rightarrow> (NotStarted, st, db)
      | Some tpl \<Rightarrow>
          if csvData st = [] then (NotStarted, st, db)
          else
            (case user of
               None \<Rightarrow>
                 (Failed ''TypeError'', st\<lparr>isGenerating := False, generationProgress := 0\<rparr>, db)
             | Some uid \<Rightarrow>
                 (case batch_insert env of
                    Inl batchError \<Rightarrow>
                      (Failed batchError,
                       st\<lparr>isGenerating := False, generationProgress := 0\<rparr>, db)
                  | Inr bid \<Rightarrow>
                      let n = length (csvData st);
                          db1 = db\<lparr>batch_jobs := batch_jobs db @
                                  [\<lparr>batch_id = bid,
                                    batch_user_id = uid,
                                    batch_template_id = selectedTemplateId st,
                                    batch_name = tpl_name tpl @ '' - '' @ today,
                                    status = ''processing'',
                                    total_count = n,
                                    generated_count = 0,
                                    csv_data = csvData st\<rparr>]\<rparr>;
                          (pr, db2) = generate_loop env bid st n (csvData st) 0 (0, db1);
                          db3 = (if batch_update_ok env
                                   then db2\<lparr>batch_jobs :=
                                          map (\<lambda>b. if batch_id b = bid
                                                     then b\<lparr>status := ''completed'',
                                                            generated_count := n\<rparr>
                                                     else b)
                                              (batch_jobs db2)\<rparr>
                                   else db2)
                      in (Complete,
                          st\<lparr>isGenerating := False, generationProgress := pr, step := 4\<rparr>,
                          db3))))"


subsection \<open>Saving a template (saveMutation)\<close>

text \<open>
  What the backend answers during one save: an error or none for the template update,
  whether the delete of the old field rows is carried out (its result is not
  inspected), an error or the new id for the template insert, an error or none for the
  insert of the field rows.
\<close>

record save_backend =
  template_update_error :: "string option"
  fields_delete_ok :: bool
  template_insert :: "string + string"
  fields_insert_error :: "string option"

text \<open>The object one field is inserted as.\<close>

definition field_row_of :: "string \<Rightarrow> template_field \<Rightarrow> field_row" where
  "field_row_of templateId f =
     \<lparr>row_template_id = templateId,
      row_field_key = field_key f,
      row_label = label f,
      row_x = pos_x f,
      row_y = pos_y f,
      row_font_size = font_size f,
      row_font_family = font_family f,
      row_font_color = font_color f,
      row_text_align = text_align f,
      row_max_width = max_width f\<rparr>"

text \<open>The last step of the save: the field rows are inserted when there are any.\<close>

definition insert_fields ::
  "save_backend \<Rightarrow> string \<Rightarrow> template_field list \<Rightarrow> database \<Rightarrow> (string + string) \<times> database" where
  "insert_fields env templateId fs db =
     (if fs \<noteq> [] \<and> templateId \<noteq> []
        then (case fields_insert_error env of
                Some fieldsError \<Rightarrow> (Inl fieldsError, db)
              | None \<Rightarrow>
                  (Inr templateId,
                   db\<lparr>template_fields := template_fields db @ map (field_row_of templateId) fs\<rparr>))
      else (Inr templateId, db))"

text \<open>
  The edit-mode branch: the template row is updated, the old field rows are deleted
  (the result of the delete is not inspected), then the fields are inserted.
\<close>

definition save_existing ::
  "save_backend \<Rightarrow> string \<Rightarrow> string \<Rightarrow> string \<Rightarrow> string \<Rightarrow> dimensions \<Rightarrow>
     template_field list \<Rightarrow> database \<Rightarrow> (string + string) \<times> database" where
  "save_existing env tid templateName templateDescription imageUrl imageDimensions fs db =
     (case template_update_error env of
        Some error \<Rightarrow> (Inl error, db)
      | None \<Rightarrow>
          let db1 = db\<lparr>certificate_templates :=
                      map (\<lambda>r. if tpl_id r = tid
                                 then r\<lparr>tpl_name := templateName,
                                        tpl_description := templateDescription,
                                        tpl_image_url := imageUrl,
                                        tpl_image_width := width imageDimensions,
                                        tpl_image_height := height imageDimensions\<rparr>
                                 else r)
                          (certificate_templates db)\<rparr>;
              db2 = (if fields_delete_ok env
                       then db1\<lparr>template_fields :=
                              filter (\<lambda>r. row_template_id r \<noteq> tid) (template_fields db1)\<rparr>
                       else db1)
          in insert_fields env tid fs db2)"

text \<open>The create branch: a template row is inserted and its new id is used.\<close>

definition save_new ::
  "save_backend \<Rightarrow> string \<Rightarrow> string \<Rightarrow> string \<Rightarrow> string \<Rightarrow> dimensions \<Rightarrow>
     template_field list \<Rightarrow> database \<Rightarrow> (string + string) \<times> database" where
  "save_new env uid templateName templateDescription imageUrl imageDimensions fs db =
     (case template_insert env of
        Inl error \<Rightarrow> (Inl error, db)
      | Inr new_id \<Rightarrow>
          insert_fields env new_id fs
            (db\<lparr>certificate_templates := certificate_templates db @
                 [\<lparr>tpl_id = new_id,
                   tpl_user_id = uid,
                   tpl_name = templateName,
                   tpl_description = templateDescription,
                   tpl_image_url = imageUrl,
                   tpl_image_width = width imageDimensions,
                   tpl_image_height = height imageDimensions\<rparr>]\<rparr>))"

text \<open>
  \<open>mutationFn\<close>: \<open>Inl\<close> is the error thrown, \<open>Inr\<close> the template id returned. \<open>url_id\<close>
  is the route parameter \<open>id\<close>; the editor is in edit mode when it is a non-empty string.
\<close>

definition mutationFn ::
  "save_backend \<Rightarrow> string option \<Rightarrow> string option \<Rightarrow> string \<Rightarrow> string \<Rightarrow> string \<Rightarrow>
     dimensions \<Rightarrow> template_field list \<Rightarrow> database \<Rightarrow> (string + string) \<times> database" where
  "mutationFn env user url_id templateName templateDescription imageUrl imageDimensions fs db =
     (case user of
        None \<Rightarrow> (Inl ''Missing required fields'', db)
      | Some uid \<Rightarrow>
          if imageUrl = [] \<or> templateName = [] then (Inl ''Missing required fields'', db)
          else
            (case url_id of
               None \<Rightarrow>
                 save_new env uid templateName templateDescription imageUrl imageDimensions fs db
             | Some tid \<Rightarrow>
                 if tid = []
                   then save_new env uid templateName templateDescription imageUrl
                          imageDimensions fs db
                 else save_existing env tid templateName templateDescription imageUrl
                        imageDimensions fs db))"


section \<open>Example data\<close>

definition field_a :: template_field where
  "field_a = \<lparr>field_id = ''temp-1'', field_key = ''name'', label = ''Participant Name'',
     pos_x = Num 400, pos_y = Num 300, font_size = Num 32, font_family = ''Arial'',
     font_color = ''#000000'', text_align = ''center'', max_width = Some (Num 200)\<rparr>"

definition field_b :: template_field where
  "field_b = \<lparr>field_id = ''temp-2'', field_key = ''course'', label = ''Course Name'',
     pos_x = Num 100, pos_y = Num 50, font_size = Num 24, font_family = ''Georgia'',
     font_color = ''#333333'', text_align = ''left'', max_width = None\<rparr>"

text \<open>A field whose key is \<open>k\<close>, placed as \<open>addField\<close> places it on an 800 by 600 image.\<close>

definition field_with_key :: "string \<Rightarrow> template_field" where
  "field_with_key k = \<lparr>field_id = ''temp-3'', field_key = k, label = ''Custom Field'',
     pos_x = Num 400, pos_y = Num 300, font_size = Num 32, font_family = ''Arial'',
     font_color = ''#000000'', text_align = ''center'', max_width = None\<rparr>"

definition editor_ab :: editor_state where
  "editor_ab = \<lparr>fields' = [field_a, field_b], selectedFieldId = Some ''temp-1''\<rparr>"

definition wide_image :: dimensions where
  "wide_image = \<lparr>width = Num 1600, height = Num 1000\<rparr>"

definition tall_template :: template where
  "tall_template = \<lparr>template_id = ''t1'', template_name = ''Course'', image_url = ''u'',
     image_width = Num 1000, image_height = Num 6000\<rparr>"

definition landscape_template :: template where
  "landscape_template = \<lparr>template_id = ''t2'', template_name = ''Award'', image_url = ''v'',
     image_width = Num 800, image_height = Num 600\<rparr>"

definition three_rows :: "csv_row list" where
  "three_rows = [[''name'' \<mapsto> ''Ada'', ''email'' \<mapsto> ''ada@x.org''],
                 [''name'' \<mapsto> ''Bob'', ''email'' \<mapsto> ''bob@x.org''],
                 [''name'' \<mapsto> ''Cy'', ''email'' \<mapsto> ''cy@x.org'']]"

definition fresh_state :: generate_state where
  "fresh_state = \<lparr>step = 2, selectedTemplateId = ''t1'', csvData = [], csvHeaders = [],
     fieldMapping = Map.empty, sendEmails = True, emailColumn = ''email'',
     isGenerating = False, generationProgress = 0\<rparr>"

definition loaded_state :: generate_state where
  "loaded_state = \<lparr>step = 3, selectedTemplateId = ''t1'', csvData = three_rows,
     csvHeaders = [''name'', ''email''], fieldMapping = [''name'' \<mapsto> ''name''],
     sendEmails = True, emailColumn = ''email'', isGenerating = False,
     generationProgress = 0\<rparr>"

definition template_row_1 :: template_row where
  "template_row_1 = \<lparr>tpl_id = ''t1'', tpl_user_id = ''u1'', tpl_name = ''Course'',
     tpl_description = ''none'', tpl_image_url = ''u'', tpl_image_width = Num 1600,
     tpl_image_height = Num 1000\<rparr>"

definition empty_database :: database where
  "empty_database = \<lparr>certificate_templates = [], template_fields = [], batch_jobs = [],
     certificates = []\<rparr>"

definition saved_database :: database where
  "saved_database = \<lparr>certificate_templates = [template_row_1],
     template_fields = [field_row_of ''t1'' field_b, field_row_of ''t2'' field_b],
     batch_jobs = [], certificates = []\<rparr>"

definition accepting_generate :: generate_backend where
  "accepting_generate = \<lparr>batch_insert = Inr ''b1'', certificate_ok = (\<lambda>i. True),
     batch_update_ok = True\<rparr>"

definition accepting_save :: save_backend where
  "accepting_save = \<lparr>template_update_error = None, fields_delete_ok = True,
     template_insert = Inr ''t9'', fields_insert_error = None\<rparr>"

text \<open>A backend that does not carry out the delete of field rows and accepts the rest.\<close>

definition failing_delete :: save_backend where
  "failing_delete = \<lparr>template_update_error = None, fields_delete_ok = False,
     template_insert = Inr ''t9'', fields_insert_error = None\<rparr>"


section \<open>Properties\<close>

subsection \<open>Auxiliary facts\<close>

lemma js_mul_one: "js_mul n (Num 1) = n"
  by (cases n) simp_all

lemma templateWidth_cases:
  "templateWidth t = PosInf \<or> templateWidth t = NegInf
     \<or> (\<exists>w. w \<noteq> 0 \<and> templateWidth t = Num w)"
proof (cases t)
  case None
  then show ?thesis by (simp add: templateWidth_def or_else_def)
next
  case (Some a)
  then show ?thesis by (cases "image_width a") (simp_all add: templateWidth_def or_else_def)
qed

lemma templateHeight_cases:
  "templateHeight t = PosInf \<or> templateHeight t = NegInf
     \<or> (\<exists>w. w \<noteq> 0 \<and> templateHeight t = Num w)"
proof (cases t)
  case None
  then show ?thesis by (simp add: templateHeight_def or_else_def)
next
  case (Some a)
  then show ?thesis by (cases "image_height a") (simp_all add: templateHeight_def or_else_def)
qed

lemma editor_scale_wide: "editor_scale wide_image = Num (1 / 2)"
  by (simp add: editor_scale_def editor_ratios_def maxWidth_def maxHeight_def Math_min_def
      wide_image_def)

lemma preview_scale_tall: "preview_scale (Some tall_template) (Num 500) = Num (1 / 2)"
  by (simp add: preview_scale_def templateWidth_def or_else_def Math_min_def tall_template_def)

lemma toLowerCase_examples:
  "toLowerCase ''Name'' = ''name''" "toLowerCase ''name'' = ''name''"
  "toLowerCase ''email'' = ''email''" "toLowerCase ''Name '' = ''name ''"
  by (simp_all add: toLowerCase_def toLowerCase_char_def)

lemma toLowerCase_Nil_iff: "toLowerCase h = toLowerCase k \<Longrightarrow> (h = []) = (k = [])"
  by (metis length_map length_0_conv toLowerCase_def)

lemma find_nonempty:
  "find (\<lambda>h. toLowerCase h = toLowerCase k) headers = Some h \<Longrightarrow> (h = []) = (k = [])"
  by (auto simp: find_Some_iff dest: toLowerCase_Nil_iff)

text \<open>The mapping built by the \<open>forEach\<close>, started from any mapping \<open>m\<close>.\<close>

lemma fold_auto_map:
  "fold (\<lambda>field mapping.
             case find (\<lambda>h. toLowerCase h = toLowerCase (field_key field)) headers of
               None \<Rightarrow> mapping
             | Some matchingHeader \<Rightarrow>
                 if matchingHeader = [] then mapping
                 else mapping(field_key field \<mapsto> matchingHeader)) fs m k =
     (if k \<in> field_key ` set fs \<and> k \<noteq> []
         \<and> find (\<lambda>h. toLowerCase h = toLowerCase k) headers \<noteq> None
      then find (\<lambda>h. toLowerCase h = toLowerCase k) headers else m k)"
proof (induction fs arbitrary: m)
  case Nil
  then show ?case by simp
next
  case (Cons f fs)
  show ?case
    using find_nonempty [of "field_key f" headers]
    by (auto simp: Cons.IH split: option.splits)
qed

lemma auto_map_eq:
  "auto_map fs headers k =
     (if k \<in> field_key ` set fs \<and> k \<noteq> []
      then find (\<lambda>h. toLowerCase h = toLowerCase k) headers else None)"
  unfolding auto_map_def fold_auto_map by auto

text \<open>The automatic mapping never stores an empty column name.\<close>

lemma auto_map_never_empty: "auto_map fs headers k \<noteq> Some []"
  using find_nonempty [of k headers "[]"] by (auto simp: auto_map_eq)

lemma count_list_filter_keep:
  "P f \<Longrightarrow> count_list (filter P fs) f = count_list fs f"
  by (induction fs) auto

lemma remove_one_of_distinct:
  "distinct (map field_id fs) \<Longrightarrow> fid \<in> field_id ` set fs \<Longrightarrow>
     length (filter (\<lambda>g. field_id g \<noteq> fid) fs) + 1 = length fs"
proof (induction fs)
  case Nil
  then show ?case by simp
next
  case (Cons a fs)
  show ?case
  proof (cases "field_id a = fid")
    case True
    then have "fid \<notin> field_id ` set fs" using Cons.prems(1) by auto
    then have "filter (\<lambda>g. field_id g \<noteq> fid) fs = fs"
      by (auto simp: filter_id_conv)
    then show ?thesis using True by simp
  next
    case False
    then show ?thesis using Cons by auto
  qed
qed

text \<open>The loop appends one record per remaining row when every insert is accepted.\<close>

lemma generate_loop_db:
  "(\<And>j. i \<le> j \<Longrightarrow> j < i + length rows \<Longrightarrow> certificate_ok env j) \<Longrightarrow>
   snd (generate_loop env bid st n rows i (pr, db))
     = db\<lparr>certificates := certificates db @ map (certificate_of bid st) rows\<rparr>"
proof (induction rows arbitrary: i pr db)
  case Nil
  then show ?case by simp
next
  case (Cons row rows)
  have ok: "certificate_ok env i" using Cons.prems [of i] by simp
  have rest: "\<And>j. Suc i \<le> j \<Longrightarrow> j < Suc i + length rows \<Longrightarrow> certificate_ok env j"
    using Cons.prems by simp
  show ?case
    using ok Cons.IH [OF rest] by simp
qed

lemma field_rows_own:
  "filter (\<lambda>r. row_template_id r = t) (map (field_row_of t) fs) = map (field_row_of t) fs"
  by (induction fs) (simp_all add: field_row_of_def)

lemma field_rows_other:
  "filter (\<lambda>r. row_template_id r \<noteq> t) (map (field_row_of t) fs) = []"
  by (induction fs) (simp_all add: field_row_of_def)


subsection \<open>Scale factor\<close>

text \<open>
  Claim C1, as the code has it. In the editor the available area is the fixed 800 by 500
  canvas bound and the cap is 1: for native dimensions \<open>W, H > 0\<close> the scale is
  \<open>min (800 / W) (500 / H) 1\<close>. In the preview the scale is \<open>min (AW / W) 0.9\<close> for native
  width \<open>W > 0\<close> and container width \<open>AW\<close>: the cap is 0.9 and neither the native height
  nor an available height enters.
\<close>

theorem scale_is_min:
  "(0 < W \<and> 0 < H \<longrightarrow>
      editor_scale \<lparr>width = Num W, height = Num H\<rparr> = Num (min (800 / W) (min (500 / H) 1)))
   \<and> (image_width t = Num W \<and> 0 < W \<longrightarrow>
      preview_scale (Some t) (Num AW) = Num (min (AW / W) (9 / 10)))"
  by (simp add: editor_scale_def editor_ratios_def maxWidth_def maxHeight_def Math_min_def
      preview_scale_def templateWidth_def or_else_def)

theorem scale_is_min_witness:
  "editor_scale \<lparr>width = Num 1600, height = Num 500\<rparr> = Num (1 / 2)
   \<and> preview_scale (Some tall_template) (Num 500) = Num (1 / 2)"
  using scale_is_min [where W = 1600 and H = 500 and AW = 500 and t = tall_template]
    scale_is_min [where W = 1000 and H = 500 and AW = 500 and t = tall_template]
  by (simp add: tall_template_def)

text \<open>
  Claim C1 as stated fails in the preview: for an 800 by 600 template in a container
  800 wide, an available height of 60 would require the scale \<open>min (800/800) (60/600) 0.9
  = 0.1\<close>, and the preview computes 0.9.
\<close>

theorem preview_scale_ignores_height:
  "preview_scale (Some landscape_template) (Num 800) = Num (9 / 10)
   \<and> preview_scale (Some landscape_template) (Num 800)
       \<noteq> Num (min (800 / 800) (min (60 / 600) (9 / 10)))"
  by (simp add: preview_scale_def templateWidth_def or_else_def Math_min_def
      landscape_template_def)


subsection \<open>Batch generation\<close>

text \<open>
  Claim C2. With a template selected, a non-empty row-set of \<open>N\<close> rows and a backend that
  accepts the writes (the batch insert returns a new id), \<open>handleGenerate\<close> completes
  and has appended exactly \<open>N\<close> certificate records, one per row in row order, and the
  batch ends with \<open>generated_count = N\<close> (and \<open>total_count = N\<close>) and status
  \<open>completed\<close>.
\<close>

theorem generate_creates_all:
  assumes "csvData st \<noteq> []"
    and "batch_insert env = Inr bid"
    and "\<forall>i < length (csvData st). certificate_ok env i"
    and "batch_update_ok env"
    and "bid \<notin> batch_id ` set (batch_jobs db)"
  shows "fst (handleGenerate env (Some uid) (Some tpl) today st db) = Complete
    \<and> certificates (snd (snd (handleGenerate env (Some uid) (Some tpl) today st db)))
        = certificates db @ map (certificate_of bid st) (csvData st)
    \<and> length (certificates (snd (snd (handleGenerate env (Some uid) (Some tpl) today st db))))
        = length (certificates db) + length (csvData st)
    \<and> batch_jobs (snd (snd (handleGenerate env (Some uid) (Some tpl) today st db)))
        = batch_jobs db @
          [\<lparr>batch_id = bid, batch_user_id = uid, batch_template_id = selectedTemplateId st,
            batch_name = tpl_name tpl @ '' - '' @ today, status = ''completed'',
            total_count = length (csvData st), generated_count = length (csvData st),
            csv_data = csvData st\<rparr>]"
proof -
  let ?n = "length (csvData st)"
  let ?b = "\<lparr>batch_id = bid, batch_user_id = uid, batch_template_id = selectedTemplateId st,
            batch_name = tpl_name tpl @ '' - '' @ today, status = ''processing'',
            total_count = ?n, generated_count = 0, csv_data = csvData st\<rparr>"
  let ?db1 = "db\<lparr>batch_jobs := batch_jobs db @ [?b]\<rparr>"
  obtain pr db2 where loop: "generate_loop env bid st ?n (csvData st) 0 (0, ?db1) = (pr, db2)"
    by (cases "generate_loop env bid st ?n (csvData st) 0 (0, ?db1)")
  have "snd (generate_loop env bid st ?n (csvData st) 0 (0, ?db1))
      = ?db1\<lparr>certificates := certificates ?db1 @ map (certificate_of bid st) (csvData st)\<rparr>"
    using assms(3) by (intro generate_loop_db) simp
  then have db2:
    "db2 = ?db1\<lparr>certificates := certificates db @ map (certificate_of bid st) (csvData st)\<rparr>"
    using loop by simp
  have keep:
    "map (\<lambda>b. if batch_id b = bid then b\<lparr>status := ''completed'', generated_count := ?n\<rparr> else b)
       (batch_jobs db) = batch_jobs db"
    using assms(5) by (intro map_idI) auto
  have res: "handleGenerate env (Some uid) (Some tpl) today st db
     = (Complete, st\<lparr>isGenerating := False, generationProgress := pr, step := 4\<rparr>,
        db2\<lparr>batch_jobs := map (\<lambda>b. if batch_id b = bid
                 then b\<lparr>status := ''completed'', generated_count := ?n\<rparr> else b)
                 (batch_jobs db2)\<rparr>)"
    using assms(1,2,4) loop by (simp add: handleGenerate_def Let_def)
  show ?thesis
    unfolding res using keep by (simp add: db2)
qed

text \<open>The three-row example: three records, one batch with count 3, completed.\<close>

theorem generate_creates_all_witness:
  "fst (handleGenerate accepting_generate (Some ''u1'') (Some template_row_1) ''1/2/2026''
          loaded_state empty_database) = Complete
   \<and> length (certificates (snd (snd (handleGenerate accepting_generate (Some ''u1'')
         (Some template_row_1) ''1/2/2026'' loaded_state empty_database)))) = 3
   \<and> map generated_count (batch_jobs (snd (snd (handleGenerate accepting_generate (Some ''u1'')
         (Some template_row_1) ''1/2/2026'' loaded_state empty_database)))) = [3]
   \<and> map status (batch_jobs (snd (snd (handleGenerate accepting_generate (Some ''u1'')
         (Some template_row_1) ''1/2/2026'' loaded_state empty_database)))) = [''completed'']"
  using generate_creates_all [where env = accepting_generate and st = loaded_state
      and bid = "''b1''" and db = empty_database and uid = "''u1''" and tpl = template_row_1
      and today = "''1/2/2026''"]
  by (simp add: accepting_generate_def loaded_state_def three_rows_def empty_database_def)


subsection \<open>Value resolution and automatic mapping\<close>

text \<open>
  Claim C3. \<open>getFieldValue\<close> returns the row's value under the mapped column when the
  field key is mapped (to a column name, which is a non-empty string) and the row holds
  a non-empty value there; in every other case it returns the field key wrapped in
  double braces.
\<close>

theorem getFieldValue_resolves:
  "(mapping k = Some c \<and> c \<noteq> [] \<and> row c = Some v \<and> v \<noteq> [] \<longrightarrow>
      getFieldValue mapping row k = v)
   \<and> (mapping k = None \<or> mapping k = Some []
        \<or> (\<exists>c. mapping k = Some c \<and> (row c = None \<or> row c = Some [])) \<longrightarrow>
      getFieldValue mapping row k = ''{{'' @ k @ ''}}'')"
  by (auto simp: getFieldValue_def placeholder_def)

theorem getFieldValue_resolves_witness:
  "getFieldValue [''name'' \<mapsto> ''Name'', ''course'' \<mapsto> ''Course'']
       [''Name'' \<mapsto> ''Ada'', ''Course'' \<mapsto> []] ''name'' = ''Ada''
   \<and> getFieldValue [''name'' \<mapsto> ''Name'', ''course'' \<mapsto> ''Course'']
       [''Name'' \<mapsto> ''Ada'', ''Course'' \<mapsto> []] ''course'' = ''{{course}}''
   \<and> getFieldValue [''name'' \<mapsto> ''Name'']
       [''Name'' \<mapsto> ''Ada'', ''Course'' \<mapsto> ''Logic''] ''course'' = ''{{course}}''"
  using getFieldValue_resolves [where mapping = "[''name'' \<mapsto> ''Name'', ''course'' \<mapsto> ''Course'']"
      and row = "[''Name'' \<mapsto> ''Ada'', ''Course'' \<mapsto> []]" and k = "''name''"
      and c = "''Name''" and v = "''Ada''"]
    getFieldValue_resolves [where mapping = "[''name'' \<mapsto> ''Name'', ''course'' \<mapsto> ''Course'']"
      and row = "[''Name'' \<mapsto> ''Ada'', ''Course'' \<mapsto> []]" and k = "''course''"]
    getFieldValue_resolves [where mapping = "[''name'' \<mapsto> ''Name'']"
      and row = "[''Name'' \<mapsto> ''Ada'', ''Course'' \<mapsto> ''Logic'']" and k = "''course''"]
  by simp

text \<open>
  Claim C4. After a row-set is loaded, the mapping of a (non-empty) field key of the
  template is the first header whose lower-cased name equals the lower-cased key, and
  is undefined when there is no such header; nothing else is mapped.
\<close>

theorem auto_map_first_match:
  "(k \<in> field_key ` set fs \<and> k \<noteq> [] \<longrightarrow>
      fieldMapping (handleCsvUpload_complete fs data (Some headers) st) k
        = find (\<lambda>h. toLowerCase h = toLowerCase k) headers)
   \<and> (k \<notin> field_key ` set fs \<or> k = [] \<longrightarrow>
      fieldMapping (handleCsvUpload_complete fs data (Some headers) st) k = None)"
  by (simp add: handleCsvUpload_complete_def auto_map_eq)

text \<open>
  The first of two matching headers is taken; the key \<open>Name\<close> followed by a space
  matches neither \<open>name\<close> nor \<open>email\<close>; a header that is no field key is not mapped.
\<close>

theorem auto_map_first_match_witness:
  "fieldMapping (handleCsvUpload_complete [field_with_key ''name''] three_rows
        (Some [''Name'', ''name'', ''email'']) fresh_state) ''name'' = Some ''Name''
   \<and> fieldMapping (handleCsvUpload_complete [field_with_key ''Name ''] three_rows
        (Some [''name'', ''email'']) fresh_state) ''Name '' = None
   \<and> fieldMapping (handleCsvUpload_complete [field_with_key ''name''] three_rows
        (Some [''name'', ''email'']) fresh_state) ''email'' = None"
  using auto_map_first_match [where k = "''name''" and fs = "[field_with_key ''name'']"
      and data = three_rows and headers = "[''Name'', ''name'', ''email'']" and st = fresh_state]
    auto_map_first_match [where k = "''Name ''" and fs = "[field_with_key ''Name '']"
      and data = three_rows and headers = "[''name'', ''email'']" and st = fresh_state]
    auto_map_first_match [where k = "''email''" and fs = "[field_with_key ''name'']"
      and data = three_rows and headers = "[''name'', ''email'']" and st = fresh_state]
  by (simp add: field_with_key_def toLowerCase_examples)


subsection \<open>Dragging\<close>

text \<open>
  Claim C5. For a positive editor scale \<open>s\<close> and a field at the finite model position
  \<open>(px, py)\<close>: the field is displayed at \<open>(px * s, py * s)\<close>, that display position is the
  local position \<open>(px, py)\<close>, and committing a drag that ends there leaves the field as
  it was. A drag that ends at any display position \<open>(dx, dy)\<close> stores \<open>(dx / s, dy / s)\<close>.
  Numbers are idealised as reals, so the round trip is exact.
\<close>

theorem drag_round_trip:
  assumes "editor_scale dims = Num s" and "0 < s" and "i < length (fields' st)"
    and "pos_x (fields' st ! i) = Num px" and "pos_y (fields' st ! i) = Num py"
  shows "display_position (editor_stage dims st) (texts (editor_stage dims st) ! i)
           = (Num (px * s), Num (py * s))
         \<and> local_position (editor_stage dims st) (Num (px * s), Num (py * s)) = (Num px, Num py)
         \<and> fields' (handleDragEnd (field_id (fields' st ! i))
              (local_position (editor_stage dims st)
                 (display_position (editor_stage dims st) (texts (editor_stage dims st) ! i))) st) ! i
             = fields' st ! i
         \<and> pos_x (fields' (handleDragEnd (field_id (fields' st ! i))
              (local_position (editor_stage dims st) (Num dx, Num dy)) st) ! i) = Num (dx / s)
         \<and> pos_y (fields' (handleDragEnd (field_id (fields' st ! i))
              (local_position (editor_stage dims st) (Num dx, Num dy)) st) ! i) = Num (dy / s)"
proof -
  let ?stg = "editor_stage dims st"
  let ?f = "fields' st ! i"
  have d: "display_position ?stg (texts ?stg ! i) = (Num (px * s), Num (py * s))"
    using assms
    by (simp add: editor_stage_def Let_def display_position_def stage_scale_def editor_text_def)
  have l: "local_position ?stg (Num (px * s), Num (py * s)) = (Num px, Num py)"
    using assms by (simp add: editor_stage_def Let_def local_position_def stage_scale_def)
  have l': "local_position ?stg (Num dx, Num dy) = (Num (dx / s), Num (dy / s))"
    using assms by (simp add: editor_stage_def Let_def local_position_def stage_scale_def)
  have "spread ?f (no_updates\<lparr>upd_pos_x := Some (Num px), upd_pos_y := Some (Num py)\<rparr>) = ?f"
    using assms(4,5) by (simp add: spread_def no_updates_def)
  then have same: "fields' (handleDragEnd (field_id ?f) (Num px, Num py) st) ! i = ?f"
    using assms(3) by (simp add: handleDragEnd_def updateField_def)
  have dropped: "fields' (handleDragEnd (field_id ?f) (Num (dx / s), Num (dy / s)) st) ! i
      = spread ?f (no_updates\<lparr>upd_pos_x := Some (Num (dx / s)), upd_pos_y := Some (Num (dy / s))\<rparr>)"
    using assms(3) by (simp add: handleDragEnd_def updateField_def)
  have dropx: "pos_x (fields' (handleDragEnd (field_id ?f) (Num (dx / s), Num (dy / s)) st) ! i)
      = Num (dx / s)"
    unfolding dropped by (simp add: spread_def no_updates_def)
  have dropy: "pos_y (fields' (handleDragEnd (field_id ?f) (Num (dx / s), Num (dy / s)) st) ! i)
      = Num (dy / s)"
    unfolding dropped by (simp add: spread_def no_updates_def)
  show ?thesis using d l same dropx dropy by (simp add: l')
qed

theorem drag_round_trip_witness:
  "display_position (editor_stage wide_image editor_ab) (texts (editor_stage wide_image editor_ab) ! 0)
       = (Num 200, Num 150)
   \<and> local_position (editor_stage wide_image editor_ab) (Num 200, Num 150) = (Num 400, Num 300)
   \<and> fields' (handleDragEnd ''temp-1''
          (local_position (editor_stage wide_image editor_ab)
             (display_position (editor_stage wide_image editor_ab)
                (texts (editor_stage wide_image editor_ab) ! 0))) editor_ab) ! 0 = field_a
   \<and> pos_x (fields' (handleDragEnd ''temp-1''
          (local_position (editor_stage wide_image editor_ab) (Num 100, Num 40)) editor_ab) ! 0)
       = Num 200"
proof -
  have h1: "editor_scale wide_image = Num (1 / 2)" by (rule editor_scale_wide)
  have h2: "(0::real) < 1 / 2" by simp
  have h3: "0 < length (fields' editor_ab)" by (simp add: editor_ab_def)
  have h4: "pos_x (fields' editor_ab ! 0) = Num 400" by (simp add: editor_ab_def field_a_def)
  have h5: "pos_y (fields' editor_ab ! 0) = Num 300" by (simp add: editor_ab_def field_a_def)
  have f: "fields' editor_ab ! 0 = field_a" by (simp add: editor_ab_def)
  have i: "field_id field_a = ''temp-1''" by (simp add: field_a_def)
  show ?thesis
    using drag_round_trip [OF h1 h2 h3 h4 h5, of 100 40] by (auto simp: f i)
qed


subsection \<open>Preview navigation\<close>

text \<open>
  Claim C6. The preview's zero-based row index stays within \<open>[0, rowCount - 1]\<close> under
  "previous" and "next", and both are no-ops at the boundaries: "previous" at index 0
  leaves 0, "next" at index \<open>rowCount - 1\<close> leaves the index unchanged.
\<close>

theorem preview_index_in_range:
  "(0 \<le> i \<and> i \<le> int (length rows) - 1 \<longrightarrow>
      0 \<le> handlePrev i \<and> handlePrev i \<le> int (length rows) - 1 \<and>
      0 \<le> handleNext rows i \<and> handleNext rows i \<le> int (length rows) - 1)
   \<and> handlePrev 0 = 0
   \<and> handleNext rows (int (length rows) - 1) = int (length rows) - 1"
  by (auto simp: handlePrev_def handleNext_def)

theorem preview_index_in_range_witness:
  "handlePrev 1 = 0 \<and> handleNext three_rows 1 = 2 \<and> handlePrev 0 = 0
   \<and> handleNext three_rows 2 = 2"
  using preview_index_in_range [of 1 three_rows]
  by (simp add: handlePrev_def handleNext_def three_rows_def)


subsection \<open>Saving\<close>

text \<open>The row written for a field carries every attribute of the field but its id.\<close>

lemma field_row_of_attributes:
  "row_template_id (field_row_of t f) = t
   \<and> row_field_key (field_row_of t f) = field_key f
   \<and> row_label (field_row_of t f) = label f
   \<and> row_x (field_row_of t f) = pos_x f
   \<and> row_y (field_row_of t f) = pos_y f
   \<and> row_font_size (field_row_of t f) = font_size f
   \<and> row_font_family (field_row_of t f) = font_family f
   \<and> row_font_color (field_row_of t f) = font_color f
   \<and> row_text_align (field_row_of t f) = text_align f
   \<and> row_max_width (field_row_of t f) = max_width f"
  by (simp add: field_row_of_def)

text \<open>
  When the required texts are present and the backend carries out each request of the
  save, the old field rows of the template included, the save returns the template's
  id and the field rows stored for that template are exactly the rows of the in-memory
  fields, in order and attribute by attribute; the field rows of other templates are
  untouched. This holds in edit mode for any previously stored rows, and in create
  mode for the id the backend hands out (an id no stored field row refers to).
\<close>

lemma save_replaces_when_delete_done:
  assumes "imageUrl \<noteq> []" and "templateName \<noteq> []"
    and "template_update_error env = None" and "fields_delete_ok env"
    and "fields_insert_error env = None"
  shows "(tid \<noteq> [] \<longrightarrow>
      fst (mutationFn env (Some uid) (Some tid) templateName descr imageUrl dims fs db) = Inr tid
      \<and> filter (\<lambda>r. row_template_id r = tid)
           (template_fields (snd (mutationFn env (Some uid) (Some tid) templateName descr
               imageUrl dims fs db)))
          = map (\<lambda>f. \<lparr>row_template_id = tid, row_field_key = field_key f, row_label = label f,
                       row_x = pos_x f, row_y = pos_y f, row_font_size = font_size f,
                       row_font_family = font_family f, row_font_color = font_color f,
                       row_text_align = text_align f, row_max_width = max_width f\<rparr>) fs
      \<and> filter (\<lambda>r. row_template_id r \<noteq> tid)
           (template_fields (snd (mutationFn env (Some uid) (Some tid) templateName descr
               imageUrl dims fs db)))
          = filter (\<lambda>r. row_template_id r \<noteq> tid) (template_fields db))
    \<and> (template_insert env = Inr nid \<and> nid \<noteq> []
        \<and> filter (\<lambda>r. row_template_id r = nid) (template_fields db) = [] \<longrightarrow>
      fst (mutationFn env (Some uid) None templateName descr imageUrl dims fs db) = Inr nid
      \<and> filter (\<lambda>r. row_template_id r = nid)
           (template_fields (snd (mutationFn env (Some uid) None templateName descr
               imageUrl dims fs db)))
          = map (\<lambda>f. \<lparr>row_template_id = nid, row_field_key = field_key f, row_label = label f,
                       row_x = pos_x f, row_y = pos_y f, row_font_size = font_size f,
                       row_font_family = font_family f, row_font_color = font_color f,
                       row_text_align = text_align f, row_max_width = max_width f\<rparr>) fs
      \<and> filter (\<lambda>r. row_template_id r \<noteq> nid)
           (template_fields (snd (mutationFn env (Some uid) None templateName descr
               imageUrl dims fs db)))
          = filter (\<lambda>r. row_template_id r \<noteq> nid) (template_fields db))"
proof -
  have rows: "map (field_row_of t) fs
      = map (\<lambda>f. \<lparr>row_template_id = t, row_field_key = field_key f, row_label = label f,
                   row_x = pos_x f, row_y = pos_y f, row_font_size = font_size f,
                   row_font_family = font_family f, row_font_color = font_color f,
                   row_text_align = text_align f, row_max_width = max_width f\<rparr>) fs" for t
    by (simp add: field_row_of_def)
  have ins: "fst (insert_fields env t fs d) = Inr t
      \<and> template_fields (snd (insert_fields env t fs d))
          = template_fields d @ map (field_row_of t) fs"
    if "t \<noteq> []" for t d
    using assms(5) that by (simp add: insert_fields_def)
  have e: "tid \<noteq> [] \<longrightarrow>
      fst (mutationFn env (Some uid) (Some tid) templateName descr imageUrl dims fs db) = Inr tid
      \<and> filter (\<lambda>r. row_template_id r = tid)
           (template_fields (snd (mutationFn env (Some uid) (Some tid) templateName descr
               imageUrl dims fs db)))
          = map (field_row_of tid) fs
      \<and> filter (\<lambda>r. row_template_id r \<noteq> tid)
           (template_fields (snd (mutationFn env (Some uid) (Some tid) templateName descr
               imageUrl dims fs db)))
          = filter (\<lambda>r. row_template_id r \<noteq> tid) (template_fields db)"
    using assms(1-4) ins [of tid] field_rows_own [of tid] field_rows_other [of tid]
    by (simp add: mutationFn_def save_existing_def Let_def)
  have c: "template_insert env = Inr nid \<and> nid \<noteq> []
        \<and> filter (\<lambda>r. row_template_id r = nid) (template_fields db) = [] \<longrightarrow>
      fst (mutationFn env (Some uid) None templateName descr imageUrl dims fs db) = Inr nid
      \<and> filter (\<lambda>r. row_template_id r = nid)
           (template_fields (snd (mutationFn env (Some uid) None templateName descr
               imageUrl dims fs db)))
          = map (field_row_of nid) fs
      \<and> filter (\<lambda>r. row_template_id r \<noteq> nid)
           (template_fields (snd (mutationFn env (Some uid) None templateName descr
               imageUrl dims fs db)))
          = filter (\<lambda>r. row_template_id r \<noteq> nid) (template_fields db)"
    using assms(1,2) ins [of nid] field_rows_own [of nid] field_rows_other [of nid]
    by (simp add: mutationFn_def save_new_def Let_def)
  show ?thesis using e c unfolding rows by blast
qed

text \<open>
  Template \<open>t1\<close> has one stored field row (key \<open>course\<close>); when the delete is carried
  out, saving the working set of the one field with key \<open>name\<close> leaves that row alone.
\<close>

lemma save_replaces_example:
  "fst (mutationFn accepting_save (Some ''u1'') (Some ''t1'') ''Course'' ''none'' ''u'' wide_image
          [field_a] saved_database) = Inr ''t1''
   \<and> filter (\<lambda>r. row_template_id r = ''t1'')
        (template_fields (snd (mutationFn accepting_save (Some ''u1'') (Some ''t1'') ''Course''
           ''none'' ''u'' wide_image [field_a] saved_database)))
       = [\<lparr>row_template_id = ''t1'', row_field_key = ''name'', row_label = ''Participant Name'',
            row_x = Num 400, row_y = Num 300, row_font_size = Num 32,
            row_font_family = ''Arial'', row_font_color = ''#000000'',
            row_text_align = ''center'', row_max_width = Some (Num 200)\<rparr>]"
  using save_replaces_when_delete_done [where env = accepting_save and tid = "''t1''"
      and nid = "''t9''" and uid = "''u1''" and templateName = "''Course''" and descr = "''none''"
      and imageUrl = "''u''" and dims = wide_image and fs = "[field_a]" and db = saved_database]
  by (simp add: accepting_save_def field_a_def)

text \<open>
  Claim C7. A save should leave, as the stored fields of the template, exactly the
  in-memory set, with the previously stored fields discarded. The code checks the
  errors of the template update and of the field insert, but not the result of the
  delete of the old field rows. At this input the backend does not carry out the delete
  and accepts the other requests: template \<open>t1\<close> has one stored row (key \<open>course\<close>),
  the working set is the one field with key \<open>name\<close>. The save returns the id \<open>t1\<close>, as
  a successful save does, and the rows stored for \<open>t1\<close> are the old row and the new
  one, not the new one alone.
\<close>

theorem save_keeps_old_rows_when_delete_fails:
  "fst (mutationFn failing_delete (Some ''u1'') (Some ''t1'') ''Course'' ''none'' ''u'' wide_image
          [field_a] saved_database) = Inr ''t1''
   \<and> filter (\<lambda>r. row_template_id r = ''t1'')
        (template_fields (snd (mutationFn failing_delete (Some ''u1'') (Some ''t1'') ''Course''
           ''none'' ''u'' wide_image [field_a] saved_database)))
       = [\<lparr>row_template_id = ''t1'', row_field_key = ''course'', row_label = ''Course Name'',
            row_x = Num 100, row_y = Num 50, row_font_size = Num 24,
            row_font_family = ''Georgia'', row_font_color = ''#333333'',
            row_text_align = ''left'', row_max_width = None\<rparr>,
          \<lparr>row_template_id = ''t1'', row_field_key = ''name'', row_label = ''Participant Name'',
            row_x = Num 400, row_y = Num 300, row_font_size = Num 32,
            row_font_family = ''Arial'', row_font_color = ''#000000'',
            row_text_align = ''center'', row_max_width = Some (Num 200)\<rparr>]
   \<and> filter (\<lambda>r. row_template_id r = ''t1'')
        (template_fields (snd (mutationFn failing_delete (Some ''u1'') (Some ''t1'') ''Course''
           ''none'' ''u'' wide_image [field_a] saved_database)))
       \<noteq> [\<lparr>row_template_id = ''t1'', row_field_key = ''name'', row_label = ''Participant Name'',
            row_x = Num 400, row_y = Num 300, row_font_size = Num 32,
            row_font_family = ''Arial'', row_font_color = ''#000000'',
            row_text_align = ''center'', row_max_width = Some (Num 200)\<rparr>]"
  by (simp add: mutationFn_def save_existing_def insert_fields_def Let_def failing_delete_def
      saved_database_def field_row_of_def field_a_def field_b_def)


subsection \<open>Rendering\<close>

text \<open>
  Claim C8. In the editor every field is displayed at \<open>(x * scale, y * scale)\<close> for the
  editor's scale, through the stage's \<open>scaleX\<close> and \<open>scaleY\<close>. In the preview every field
  is displayed at \<open>(x * scale, y * scale)\<close> for the preview's scale, its font size is
  \<open>font_size * scale\<close>, and its width is \<open>max_width * scale\<close> when \<open>max_width\<close> is set
  (a truthy number) and not passed otherwise.
\<close>

theorem fields_drawn_scaled:
  "map (display_position (editor_stage dims st)) (texts (editor_stage dims st))
      = map (\<lambda>f. (js_mul (pos_x f) (editor_scale dims), js_mul (pos_y f) (editor_scale dims)))
          (fields' st)
   \<and> (\<exists>pst. preview_stage (Some t) cw fs rows mapping i = Some pst
        \<and> map (display_position pst) (texts pst)
            = map (\<lambda>f. (js_mul (pos_x f) (preview_scale (Some t) cw),
                        js_mul (pos_y f) (preview_scale (Some t) cw))) fs
        \<and> map fontSize (texts pst) = map (\<lambda>f. js_mul (font_size f) (preview_scale (Some t) cw)) fs
        \<and> map node_width (texts pst)
            = map (\<lambda>f. case max_width f of
                         None \<Rightarrow> None
                       | Some w \<Rightarrow> if truthy w then Some (js_mul w (preview_scale (Some t) cw))
                                  else None) fs)"
  by (simp add: editor_stage_def Let_def display_position_def stage_scale_def editor_text_def
      preview_stage_def preview_text_def js_mul_one)

theorem fields_drawn_scaled_witness:
  "map (display_position (editor_stage wide_image editor_ab))
       (texts (editor_stage wide_image editor_ab)) = [(Num 200, Num 150), (Num 50, Num 25)]
   \<and> (\<exists>pst. preview_stage (Some tall_template) (Num 500) [field_a, field_b] three_rows
              [''name'' \<mapsto> ''name''] 0 = Some pst
        \<and> map (display_position pst) (texts pst) = [(Num 200, Num 150), (Num 50, Num 25)]
        \<and> map fontSize (texts pst) = [Num 16, Num 12]
        \<and> map node_width (texts pst) = [Some (Num 100), None])"
  using fields_drawn_scaled [where dims = wide_image and st = editor_ab and t = tall_template
      and cw = "Num 500" and fs = "[field_a, field_b]" and rows = three_rows
      and mapping = "[''name'' \<mapsto> ''name'']" and i = 0]
  by (simp add: preview_scale_tall editor_scale_wide editor_ab_def field_a_def field_b_def)


subsection \<open>Degenerate dimensions\<close>

text \<open>
  Claim C9, as the code has it. The preview replaces a zero or missing native width or
  height by 800 or 600 before it divides, and starts from a container width of 800: it
  never divides by zero, and its scale is a finite number, at most 0.9 (0.9 at the
  initial layout without a template). The editor starts from the dimensions 800 by 600
  and has no guard against zero; for all finite dimensions, zero included, its scale
  is still a finite number, at most 1, since \<open>Math.min\<close> with the cap 1 discards an
  infinite quotient.
\<close>

theorem scale_always_finite:
  "templateWidth t \<noteq> Num 0 \<and> templateWidth t \<noteq> NaN
   \<and> templateHeight t \<noteq> Num 0 \<and> templateHeight t \<noteq> NaN
   \<and> (\<exists>s. preview_scale t (Num cw) = Num s \<and> s \<le> 9 / 10)
   \<and> preview_scale None initial_containerWidth = Num (9 / 10)
   \<and> (\<exists>s. editor_scale \<lparr>width = Num w, height = Num h\<rparr> = Num s \<and> s \<le> 1)
   \<and> editor_scale initial_imageDimensions = Num (5 / 6)"
proof -
  have pw: "templateWidth t \<noteq> Num 0 \<and> templateWidth t \<noteq> NaN"
    using templateWidth_cases [of t] by auto
  have ph: "templateHeight t \<noteq> Num 0 \<and> templateHeight t \<noteq> NaN"
    using templateHeight_cases [of t] by auto
  have ps: "\<exists>s. preview_scale t (Num cw) = Num s \<and> s \<le> 9 / 10"
  proof -
    consider "templateWidth t = PosInf" | "templateWidth t = NegInf"
      | w where "w \<noteq> 0" "templateWidth t = Num w"
      using templateWidth_cases [of t] by blast
    then show ?thesis
    proof cases
      case 1
      then have "preview_scale t (Num cw) = Num (min 0 (9 / 10))"
        by (simp add: preview_scale_def Math_min_def)
      then show ?thesis using min.cobounded2 by blast
    next
      case 2
      then have "preview_scale t (Num cw) = Num (min 0 (9 / 10))"
        by (simp add: preview_scale_def Math_min_def)
      then show ?thesis using min.cobounded2 by blast
    next
      case 3
      then have "preview_scale t (Num cw) = Num (min (cw / w) (9 / 10))"
        by (simp add: preview_scale_def Math_min_def)
      then show ?thesis using min.cobounded2 by blast
    qed
  qed
  have p0: "preview_scale None initial_containerWidth = Num (9 / 10)"
    by (simp add: preview_scale_def templateWidth_def or_else_def Math_min_def
        initial_containerWidth_def)
  have es: "\<exists>s. editor_scale \<lparr>width = Num w, height = Num h\<rparr> = Num s \<and> s \<le> 1"
  proof -
    have m: "\<exists>s. min2 q (Num r) = Num s \<and> s \<le> r" if "q \<noteq> NaN" "q \<noteq> NegInf" for q r
      using that by (cases q) auto
    have qh: "js_div maxHeight (Num h) \<noteq> NaN \<and> js_div maxHeight (Num h) \<noteq> NegInf"
      by (simp add: maxHeight_def)
    have qw: "js_div maxWidth (Num w) \<noteq> NaN \<and> js_div maxWidth (Num w) \<noteq> NegInf"
      by (simp add: maxWidth_def)
    obtain s1 where s1: "min2 (js_div maxHeight (Num h)) (Num 1) = Num s1" "s1 \<le> 1"
      using m qh by blast
    obtain s2 where s2: "min2 (js_div maxWidth (Num w)) (Num s1) = Num s2" "s2 \<le> s1"
      using m qw by blast
    have "editor_scale \<lparr>width = Num w, height = Num h\<rparr> = Num s2"
      by (simp add: editor_scale_def editor_ratios_def Math_min_def s1 s2)
    then show ?thesis using s1 s2 by auto
  qed
  have e0: "editor_scale initial_imageDimensions = Num (5 / 6)"
    by (simp add: editor_scale_def editor_ratios_def maxWidth_def maxHeight_def Math_min_def
        initial_imageDimensions_def)
  show ?thesis using pw ph ps p0 es e0 by blast
qed

text \<open>
  Claim C9 as stated fails in the editor: with a native width of zero the quotient
  \<open>800 / 0\<close> is computed and is \<open>Infinity\<close>; no fallback takes the place of the zero,
  and the scale that results follows the height (0.5 for height 1000).
\<close>

theorem editor_divides_by_zero:
  "editor_ratios \<lparr>width = Num 0, height = Num 1000\<rparr> = [PosInf, Num (1 / 2)]
   \<and> editor_scale \<lparr>width = Num 0, height = Num 1000\<rparr> = Num (1 / 2)"
  by (simp add: editor_scale_def editor_ratios_def maxWidth_def maxHeight_def Math_min_def)


subsection \<open>Editing the working set\<close>

text \<open>
  Claim C10. \<open>updateField\<close> keeps the number of fields and the selection, leaves every
  field whose id differs from \<open>fieldId\<close> as it was and replaces a field with that id by
  its spread with the update, in which every attribute absent from the update keeps its
  value. \<open>removeField\<close> removes every field with that id (exactly one when ids are
  distinct and the id occurs), keeps every other field with its multiplicity, and
  keeps the order.
\<close>

theorem update_remove_frame:
  "length (fields' (updateField fid u st)) = length (fields' st)
   \<and> selectedFieldId (updateField fid u st) = selectedFieldId st
   \<and> (\<forall>i < length (fields' st).
        fields' (updateField fid u st) ! i
          = (if field_id (fields' st ! i) = fid then spread (fields' st ! i) u else fields' st ! i))
   \<and> (upd_field_id u = None \<longrightarrow> field_id (spread f u) = field_id f)
   \<and> (upd_field_key u = None \<longrightarrow> field_key (spread f u) = field_key f)
   \<and> (upd_label u = None \<longrightarrow> label (spread f u) = label f)
   \<and> (upd_pos_x u = None \<longrightarrow> pos_x (spread f u) = pos_x f)
   \<and> (upd_pos_y u = None \<longrightarrow> pos_y (spread f u) = pos_y f)
   \<and> (upd_font_size u = None \<longrightarrow> font_size (spread f u) = font_size f)
   \<and> (upd_font_family u = None \<longrightarrow> font_family (spread f u) = font_family f)
   \<and> (upd_font_color u = None \<longrightarrow> font_color (spread f u) = font_color f)
   \<and> (upd_text_align u = None \<longrightarrow> text_align (spread f u) = text_align f)
   \<and> (upd_max_width u = None \<longrightarrow> max_width (spread f u) = max_width f)
   \<and> (\<forall>g \<in> set (fields' (removeField fid st)). field_id g \<noteq> fid)
   \<and> (\<forall>g. field_id g \<noteq> fid \<longrightarrow>
          count_list (fields' (removeField fid st)) g = count_list (fields' st) g)
   \<and> subseq (fields' (removeField fid st)) (fields' st)
   \<and> (distinct (map field_id (fields' st)) \<and> fid \<in> field_id ` set (fields' st) \<longrightarrow>
          length (fields' (removeField fid st)) + 1 = length (fields' st))"
proof -
  have u: "length (fields' (updateField fid u st)) = length (fields' st)
     \<and> selectedFieldId (updateField fid u st) = selectedFieldId st
     \<and> (\<forall>i < length (fields' st).
        fields' (updateField fid u st) ! i
          = (if field_id (fields' st ! i) = fid then spread (fields' st ! i) u else fields' st ! i))"
    by (simp add: updateField_def)
  have s: "(upd_field_id u = None \<longrightarrow> field_id (spread f u) = field_id f)
   \<and> (upd_field_key u = None \<longrightarrow> field_key (spread f u) = field_key f)
   \<and> (upd_label u = None \<longrightarrow> label (spread f u) = label f)
   \<and> (upd_pos_x u = None \<longrightarrow> pos_x (spread f u) = pos_x f)
   \<and> (upd_pos_y u = None \<longrightarrow> pos_y (spread f u) = pos_y f)
   \<and> (upd_font_size u = None \<longrightarrow> font_size (spread f u) = font_size f)
   \<and> (upd_font_family u = None \<longrightarrow> font_family (spread f u) = font_family f)
   \<and> (upd_font_color u = None \<longrightarrow> font_color (spread f u) = font_color f)
   \<and> (upd_text_align u = None \<longrightarrow> text_align (spread f u) = text_align f)
   \<and> (upd_max_width u = None \<longrightarrow> max_width (spread f u) = max_width f)"
    by (simp add: spread_def)
  have r1: "\<forall>g \<in> set (fields' (removeField fid st)). field_id g \<noteq> fid"
    by (simp add: removeField_def)
  have r2: "\<forall>g. field_id g \<noteq> fid \<longrightarrow>
          count_list (fields' (removeField fid st)) g = count_list (fields' st) g"
    by (simp add: removeField_def count_list_filter_keep)
  have r3: "subseq (fields' (removeField fid st)) (fields' st)"
    by (simp add: removeField_def)
  have r4: "distinct (map field_id (fields' st)) \<and> fid \<in> field_id ` set (fields' st) \<longrightarrow>
          length (fields' (removeField fid st)) + 1 = length (fields' st)"
    using remove_one_of_distinct [of "fields' st" fid] by (simp add: removeField_def)
  show ?thesis using u s r1 r2 r3 r4 by blast
qed

text \<open>
  Renaming the label of \<open>temp-1\<close> leaves \<open>field_b\<close> and the position of \<open>field_a\<close> as
  they were; removing \<open>temp-1\<close> leaves exactly \<open>field_b\<close>.
\<close>

theorem update_remove_frame_witness:
  "fields' (updateField ''temp-1'' (no_updates\<lparr>upd_label := Some ''Name''\<rparr>) editor_ab) ! 1 = field_b
   \<and> pos_x (spread field_a (no_updates\<lparr>upd_label := Some ''Name''\<rparr>)) = Num 400
   \<and> length (fields' (removeField ''temp-1'' editor_ab)) + 1 = 2
   \<and> count_list (fields' (removeField ''temp-1'' editor_ab)) field_b = 1"
  using update_remove_frame [where fid = "''temp-1''" and st = editor_ab and f = field_a
      and u = "no_updates\<lparr>upd_label := Some ''Name''\<rparr>"]
  by (simp add: editor_ab_def field_a_def field_b_def no_updates_def)

end
